theory Spec2Isabelle
  imports Main
begin

section \<open>The comparison composer of create_comparison.py\<close>

text \<open>
  The script has one procedure, \<^verbatim>\<open>create_comparison_image\<close>. It reads two screenshots,
  asks the imaging library for a white canvas, draws six lines of text and pastes the two
  screenshots onto it, saves the canvas and prints one line. Everything it touches outside
  its own variables (the file system, the standard output) is a field of the record
  \<open>world\<close>; an exception of Python is a value \<open>Inl e\<close> of a sum type, so that "does not
  raise" is a statement about the model and not a property of its types. The procedure is
  given twice: first on an installation whose fonts draw every string, where the layout
  is read off, then on any installation, where drawing a caption may raise; the two
  agree whenever the font in hand can draw the captions.
\<close>

subsection \<open>Data\<close>

text \<open>
  An image handle as \<^verbatim>\<open>Image.open\<close> returns it. The library reads the header at once
  (so \<^verbatim>\<open>.width\<close> and \<^verbatim>\<open>.height\<close> are known) and the pixel data only when
  the image is used; \<open>img_decodes\<close> says whether that later read works. A raster has no
  negative dimension, so both are \<open>nat\<close>; the layout arithmetic is over \<open>int\<close>, as in
  Python.
\<close>

record image =
  img_width :: nat
  img_height :: nat
  img_decodes :: bool

text \<open>A font handle: \<^verbatim>\<open>ImageFont.truetype(path, size)\<close> or \<^verbatim>\<open>ImageFont.load_default()\<close>.\<close>

datatype font = TrueType string nat | DefaultFont

text \<open>
  The canvas keeps what was asked of it, in order: each \<^verbatim>\<open>draw.text\<close> and each
  \<^verbatim>\<open>paste\<close> with its arguments. The drawing context \<^verbatim>\<open>draw\<close> is an alias of
  the canvas \<^verbatim>\<open>comparison\<close>: drawing through it changes the canvas, so both are one
  value here.
\<close>

datatype draw_op =
    Text (pos: "int \<times> int") (content: string) (fill: string) (fnt: font)
  | Paste (src: image) (pos: "int \<times> int")

record canvas =
  c_mode :: string
  c_size :: "int \<times> int"
  c_color :: string
  c_ops :: "draw_op list"

text \<open>What a path of the file system holds.\<close>

datatype file_data = Picture image | Composite canvas | FontFile | Other

text \<open>What writing to a path does: it works, it is refused before anything is written, or
  it stops half way.\<close>

datatype write_result = Written | Refused | Truncated

record world =
  files :: "string \<rightharpoonup> file_data"
  disk :: "string \<Rightarrow> write_result"
  stdout :: "string list"

datatype exn =
    FileNotFoundError string
  | UnidentifiedImageError string
  | OSError string
  | UnicodeEncodeError string

text \<open>\<^verbatim>\<open>str(e)\<close>, the text the handler prints.\<close>

fun str :: "exn \<Rightarrow> string" where
  "str (FileNotFoundError p) =
     ''[Errno 2] No such file or directory: '' @ [CHR 0x27] @ p @ [CHR 0x27]"
| "str (UnidentifiedImageError p) = ''cannot identify image file '' @ [CHR 0x27] @ p @ [CHR 0x27]"
| "str (OSError m) = m"
| "str (UnicodeEncodeError m) = m"

subsection \<open>The literals of the script\<close>

abbreviation valid_path :: string where
  "valid_path \<equiv> ''/tmp/playwright-logs/valid-error-validation.png''"

abbreviation invalid_path :: string where
  "invalid_path \<equiv> ''/tmp/playwright-logs/invalid-error-validation.png''"

abbreviation comparison_path :: string where
  "comparison_path \<equiv> ''/tmp/playwright-logs/error-validation-comparison.png''"

abbreviation bold_font_path :: string where
  "bold_font_path \<equiv> ''/usr/share/fonts/truetype/dejavu/DejaVuSans-Bold.ttf''"

abbreviation regular_font_path :: string where
  "regular_font_path \<equiv> ''/usr/share/fonts/truetype/dejavu/DejaVuSans.ttf''"

abbreviation title_text :: string where
  "title_text \<equiv> ''JSON:API Error Object Structure Validation - UI Demo''"

abbreviation subtitle_text :: string where
  "subtitle_text \<equiv>
     ''Comprehensive validation of error responses per JSON:API v1.1 specification''"

text \<open>The two captions start with U+2705 and U+274C, written here as their UTF-8 bytes.\<close>

abbreviation valid_caption :: string where
  "valid_caption \<equiv> [CHR 0xE2, CHR 0x9C, CHR 0x85] @ '' VALID Error Response (404 Not Found)''"

abbreviation valid_description :: string where
  "valid_description \<equiv> ''Shows detailed validation of all error object members''"

abbreviation invalid_caption :: string where
  "invalid_caption \<equiv>
     [CHR 0xE2, CHR 0x9D, CHR 0x8C] @ '' INVALID Error Response (String instead of Object)''"

abbreviation invalid_description :: string where
  "invalid_description \<equiv> ''Correctly detects and reports error object structure violations''"

subsection \<open>The library calls\<close>

text \<open>\<^verbatim>\<open>Image.open(path)\<close>: raises when the file is missing or is no image.\<close>

definition Image_open :: "world \<Rightarrow> string \<Rightarrow> exn + image" where
  "Image_open w path =
     (case files w path of
        None \<Rightarrow> Inl (FileNotFoundError path)
      | Some (Picture im) \<Rightarrow> Inr im
      | Some (Composite c) \<Rightarrow>
          Inr \<lparr>img_width = nat (fst (c_size c)), img_height = nat (snd (c_size c)),
               img_decodes = True\<rparr>
      | Some FontFile \<Rightarrow> Inl (UnidentifiedImageError path)
      | Some Other \<Rightarrow> Inl (UnidentifiedImageError path))"

text \<open>\<^verbatim>\<open>Image.new(mode, size, color)\<close>: a blank canvas.\<close>

definition Image_new :: "string \<Rightarrow> int \<times> int \<Rightarrow> string \<Rightarrow> canvas" where
  "Image_new mode sz color = \<lparr>c_mode = mode, c_size = sz, c_color = color, c_ops = []\<rparr>"

text \<open>\<^verbatim>\<open>ImageFont.truetype(path, size)\<close>: raises when the font file cannot be read.\<close>

definition truetype :: "world \<Rightarrow> string \<Rightarrow> nat \<Rightarrow> exn + font" where
  "truetype w path sz =
     (case files w path of
        Some FontFile \<Rightarrow> Inr (TrueType path sz)
      | _ \<Rightarrow> Inl (OSError ''cannot open resource''))"

definition load_default :: font where
  "load_default = DefaultFont"

text \<open>What \<^verbatim>\<open>draw.text(xy, text, fill=..., font=...)\<close> does to the canvas when the
  font can draw the text. Whether it can is a matter of the installation, and
  \<open>draw_text_on\<close> below adds the case where it cannot.\<close>

definition draw_text :: "canvas \<Rightarrow> int \<times> int \<Rightarrow> string \<Rightarrow> string \<Rightarrow> font \<Rightarrow> canvas" where
  "draw_text c xy t col f = c\<lparr>c_ops := c_ops c @ [Text xy t col f]\<rparr>"

text \<open>\<^verbatim>\<open>comparison.paste(im, (x, y))\<close>: loads the pixel data of \<open>im\<close>, which raises
  when the data is damaged, and copies it to the canvas with its top-left corner at \<open>(x, y)\<close>.\<close>

definition paste :: "canvas \<Rightarrow> image \<Rightarrow> int \<times> int \<Rightarrow> exn + canvas" where
  "paste c im xy =
     (if img_decodes im then Inr (c\<lparr>c_ops := c_ops c @ [Paste im xy]\<rparr>)
      else Inl (OSError ''image file is truncated''))"

text \<open>
  The part of a pasted image that reaches the canvas. The library copies the rectangle
  where the image, placed at \<open>(x, y)\<close>, meets the canvas, and drops the rest without
  an error. \<open>clip\<close> follows the library's computation and returns the first source column
  and row and the number of columns and rows copied (nothing is copied when one of these
  numbers is not positive).
\<close>

definition clip :: "canvas \<Rightarrow> image \<Rightarrow> int \<times> int \<Rightarrow> int \<times> int \<times> int \<times> int" where
  "clip c im xy =
     (let dx0 = fst xy; dy0 = snd xy;
          xsize = int (img_width im); ysize = int (img_height im);
          sx0 = (if dx0 < 0 then - dx0 else 0);
          xsize = (if dx0 < 0 then xsize + dx0 else xsize);
          dx0 = (if dx0 < 0 then 0 else dx0);
          xsize = (if dx0 + xsize > fst (c_size c) then fst (c_size c) - dx0 else xsize);
          sy0 = (if dy0 < 0 then - dy0 else 0);
          ysize = (if dy0 < 0 then ysize + dy0 else ysize);
          dy0 = (if dy0 < 0 then 0 else dy0);
          ysize = (if dy0 + ysize > snd (c_size c) then snd (c_size c) - dy0 else ysize)
      in (sx0, sy0, xsize, ysize))"

text \<open>The rows of the pasted image, counted from its top, that are copied to the canvas.\<close>

definition copied_rows :: "canvas \<Rightarrow> image \<Rightarrow> int \<times> int \<Rightarrow> int list" where
  "copied_rows c im xy =
     (case clip c im xy of (sx0, sy0, xsize, ysize) \<Rightarrow>
        if xsize \<le> 0 \<or> ysize \<le> 0 then [] else [sy0 .. sy0 + ysize - 1])"

text \<open>\<^verbatim>\<open>comparison.save(path)\<close>: writes the canvas, overwriting what the path held.
  A write that stops half way raises; the library then removes the file if the call had
  created it, and a file that was there before is left damaged.\<close>

definition save :: "world \<Rightarrow> canvas \<Rightarrow> string \<Rightarrow> (exn + unit) \<times> world" where
  "save w c path =
     (case disk w path of
        Written \<Rightarrow> (Inr (), w\<lparr>files := (files w)(path \<mapsto> Composite c)\<rparr>)
      | Refused \<Rightarrow>
          (Inl (OSError (''[Errno 13] Permission denied: '' @ [CHR 0x27] @ path @ [CHR 0x27])), w)
      | Truncated \<Rightarrow>
          (Inl (OSError ''[Errno 28] No space left on device''),
           (case files w path of
              None \<Rightarrow> w
            | Some _ \<Rightarrow> w\<lparr>files := (files w)(path \<mapsto> Other)\<rparr>)))"

definition print :: "string \<Rightarrow> world \<Rightarrow> world" where
  "print line w = w\<lparr>stdout := stdout w @ [line]\<rparr>"

subsection \<open>The procedure\<close>

text \<open>Lines 22 to 27: the inner \<^verbatim>\<open>try\<close> with its bare \<^verbatim>\<open>except\<close>. When the first
  font loads and the second does not, the handler replaces both.\<close>

definition load_fonts :: "world \<Rightarrow> font \<times> font" where
  "load_fonts w =
     (case truetype w bold_font_path 24 of
        Inl _ \<Rightarrow> (load_default, load_default)
      | Inr font_large \<Rightarrow>
          (case truetype w regular_font_path 16 of
             Inl _ \<Rightarrow> (load_default, load_default)
           | Inr font_small \<Rightarrow> (font_large, font_small)))"

text \<open>Lines 11 to 53: from the dimensions to the second paste, on an installation whose
  fonts draw every string. An assignment to a variable that already has a value is a new
  binding of the same name.\<close>

definition compose_canvas :: "world \<Rightarrow> image \<Rightarrow> image \<Rightarrow> exn + canvas" where
  "compose_canvas w valid_img invalid_img =
     (let width = max (int (img_width valid_img)) (int (img_width invalid_img));
          height = int (img_height valid_img) + int (img_height invalid_img) + 120;
          comparison = Image_new ''RGB'' (width, height) ''white'';
          (font_large, font_small) = load_fonts w;
          comparison = draw_text comparison (20, 20) title_text ''black'' font_large;
          comparison = draw_text comparison (20, 50) subtitle_text ''gray'' font_small;
          y_offset = 80;
          comparison = draw_text comparison (20, y_offset) valid_caption ''green'' font_small;
          comparison =
            draw_text comparison (20, y_offset + 20) valid_description ''gray'' font_small
      in case paste comparison valid_img (0, y_offset + 50) of
           Inl e \<Rightarrow> Inl e
         | Inr comparison \<Rightarrow>
            (let y_offset = y_offset + 50 + int (img_height valid_img) + 20;
                 comparison =
                   draw_text comparison (20, y_offset) invalid_caption ''red'' font_small;
                 comparison =
                   draw_text comparison (20, y_offset + 20) invalid_description ''gray''
                     font_small
             in paste comparison invalid_img (0, y_offset + 50)))"

text \<open>Lines 7 to 59: the body of the outer \<^verbatim>\<open>try\<close>. The world it returns with an
  exception is the world at the moment the exception was raised.\<close>

definition try_body :: "world \<Rightarrow> (exn + string) \<times> world" where
  "try_body w =
     (case Image_open w valid_path of
        Inl e \<Rightarrow> (Inl e, w)
      | Inr valid_img \<Rightarrow>
         (case Image_open w invalid_path of
            Inl e \<Rightarrow> (Inl e, w)
          | Inr invalid_img \<Rightarrow>
             (case compose_canvas w valid_img invalid_img of
                Inl e \<Rightarrow> (Inl e, w)
              | Inr comparison \<Rightarrow>
                 (case save w comparison comparison_path of
                    (Inl e, w') \<Rightarrow> (Inl e, w')
                  | (Inr _, w') \<Rightarrow>
                      (Inr comparison_path,
                       print (''Comparison image created: '' @ comparison_path) w')))))"

text \<open>Lines 5 to 63: the procedure. \<open>Inr (Some path)\<close> is \<^verbatim>\<open>return comparison_path\<close>,
  \<open>Inr None\<close> is \<^verbatim>\<open>return None\<close>, and \<open>Inl e\<close> would be an exception leaving it.\<close>

definition create_comparison_image :: "world \<Rightarrow> (exn + string option) \<times> world" where
  "create_comparison_image w =
     (case try_body w of
        (Inr path, w') \<Rightarrow> (Inr (Some path), w')
      | (Inl e, w') \<Rightarrow> (Inr None, print (''Error creating comparison: '' @ str e) w'))"

subsection \<open>The installation\<close>

text \<open>
  Two facts of the installation decide what the script does beyond the files it reads:
  whether the imaging library can be imported at all (line 2), and which font
  \<^verbatim>\<open>ImageFont.load_default()\<close> gives. A library built with FreeType (from version
  10.1 on) gives a scalable font that draws any string; otherwise the default is the
  built-in bitmap font, whose text is encoded as Latin-1 before it is drawn, and
  \<^verbatim>\<open>draw.text\<close> raises \<^verbatim>\<open>UnicodeEncodeError\<close> on a character above U+00FF.
  A TrueType font loaded from a file draws any string.
\<close>

record installation =
  pillow_installed :: bool
  freetype_default :: bool

text \<open>The code points of a string held as UTF-8 bytes (a byte that starts no complete
  sequence is passed through).\<close>

fun utf8_decode :: "nat list \<Rightarrow> nat list" where
  "utf8_decode [] = []"
| "utf8_decode (b # bs) =
     (if b < 0xC0 then b # utf8_decode bs
      else if b < 0xE0 then
        (case bs of
           c1 # r \<Rightarrow> (b mod 32 * 64 + c1 mod 64) # utf8_decode r
         | _ \<Rightarrow> [b])
      else if b < 0xF0 then
        (case bs of
           c1 # c2 # r \<Rightarrow> (b mod 16 * 4096 + c1 mod 64 * 64 + c2 mod 64) # utf8_decode r
         | _ \<Rightarrow> [b])
      else
        (case bs of
           c1 # c2 # c3 # r \<Rightarrow>
             (b mod 8 * 262144 + c1 mod 64 * 4096 + c2 mod 64 * 64 + c3 mod 64) # utf8_decode r
         | _ \<Rightarrow> [b]))"

definition code_points :: "string \<Rightarrow> nat list" where
  "code_points t = utf8_decode (map of_char t)"

definition latin1 :: "string \<Rightarrow> bool" where
  "latin1 t = list_all (\<lambda>c. c < 256) (code_points t)"

text \<open>The message of the \<^verbatim>\<open>UnicodeEncodeError\<close>: it names the first run of characters
  that Latin-1 does not have.\<close>

definition hex_digit :: "nat \<Rightarrow> char" where
  "hex_digit d = ''0123456789abcdef'' ! (d mod 16)"

fun decimal :: "nat \<Rightarrow> string" where
  "decimal n = (if n < 10 then [hex_digit n] else decimal (n div 10) @ [hex_digit (n mod 10)])"

definition escaped :: "nat \<Rightarrow> string" where
  "escaped c =
     (if c \<le> 0xFF then [CHR 0x5C, CHR ''x'', hex_digit (c div 16), hex_digit c]
      else if c \<le> 0xFFFF then
        [CHR 0x5C, CHR ''u'', hex_digit (c div 4096), hex_digit (c div 256),
         hex_digit (c div 16), hex_digit c]
      else
        [CHR 0x5C, CHR ''U'', hex_digit (c div 268435456), hex_digit (c div 16777216),
         hex_digit (c div 1048576), hex_digit (c div 65536), hex_digit (c div 4096),
         hex_digit (c div 256), hex_digit (c div 16), hex_digit c])"

definition latin1_error :: "nat list \<Rightarrow> string" where
  "latin1_error cs =
     (let start = length (takeWhile (\<lambda>c. c < 256) cs);
          run = takeWhile (\<lambda>c. \<not> c < 256) (drop start cs)
      in [CHR 0x27] @ ''latin-1'' @ [CHR 0x27] @ '' codec can'' @ [CHR 0x27] @ ''t encode '' @
         (if length run = 1
          then ''character '' @ [CHR 0x27] @ escaped (hd run) @ [CHR 0x27] @
               '' in position '' @ decimal start
          else ''characters in position '' @ decimal start @ ''-'' @
               decimal (start + length run - 1)) @
         '': ordinal not in range(256)'')"

text \<open>Whether a font of the installation can draw a string.\<close>

definition renders :: "installation \<Rightarrow> font \<Rightarrow> string \<Rightarrow> bool" where
  "renders inst f t = (f \<noteq> DefaultFont \<or> freetype_default inst \<or> latin1 t)"

text \<open>\<^verbatim>\<open>draw.text(xy, text, fill=..., font=...)\<close> on an installation.\<close>

definition draw_text_on ::
  "installation \<Rightarrow> canvas \<Rightarrow> int \<times> int \<Rightarrow> string \<Rightarrow> string \<Rightarrow> font \<Rightarrow> exn + canvas" where
  "draw_text_on inst c xy t col f =
     (if renders inst f t then Inr (draw_text c xy t col f)
      else Inl (UnicodeEncodeError (latin1_error (code_points t))))"

text \<open>One statement after another: an exception ends the sequence.\<close>

definition and_then :: "exn + 'a \<Rightarrow> ('a \<Rightarrow> exn + 'b) \<Rightarrow> exn + 'b" where
  "and_then r f = (case r of Inl e \<Rightarrow> Inl e | Inr v \<Rightarrow> f v)"

text \<open>Lines 11 to 53 on an installation: each \<^verbatim>\<open>draw.text\<close> may raise.\<close>

definition compose_canvas_on :: "installation \<Rightarrow> world \<Rightarrow> image \<Rightarrow> image \<Rightarrow> exn + canvas" where
  "compose_canvas_on inst w valid_img invalid_img =
     (let width = max (int (img_width valid_img)) (int (img_width invalid_img));
          height = int (img_height valid_img) + int (img_height invalid_img) + 120;
          comparison = Image_new ''RGB'' (width, height) ''white'';
          (font_large, font_small) = load_fonts w
      in
      and_then (draw_text_on inst comparison (20, 20) title_text ''black'' font_large)
        (\<lambda>comparison.
      and_then (draw_text_on inst comparison (20, 50) subtitle_text ''gray'' font_small)
        (\<lambda>comparison.
      let y_offset = 80 in
      and_then (draw_text_on inst comparison (20, y_offset) valid_caption ''green'' font_small)
        (\<lambda>comparison.
      and_then
        (draw_text_on inst comparison (20, y_offset + 20) valid_description ''gray'' font_small)
        (\<lambda>comparison.
      and_then (paste comparison valid_img (0, y_offset + 50))
        (\<lambda>comparison.
      let y_offset = y_offset + 50 + int (img_height valid_img) + 20 in
      and_then (draw_text_on inst comparison (20, y_offset) invalid_caption ''red'' font_small)
        (\<lambda>comparison.
      and_then
        (draw_text_on inst comparison (20, y_offset + 20) invalid_description ''gray''
           font_small)
        (\<lambda>comparison.
      paste comparison invalid_img (0, y_offset + 50)))))))))"

text \<open>Lines 7 to 59 on an installation.\<close>

definition try_body_on :: "installation \<Rightarrow> world \<Rightarrow> (exn + string) \<times> world" where
  "try_body_on inst w =
     (case Image_open w valid_path of
        Inl e \<Rightarrow> (Inl e, w)
      | Inr valid_img \<Rightarrow>
         (case Image_open w invalid_path of
            Inl e \<Rightarrow> (Inl e, w)
          | Inr invalid_img \<Rightarrow>
             (case compose_canvas_on inst w valid_img invalid_img of
                Inl e \<Rightarrow> (Inl e, w)
              | Inr comparison \<Rightarrow>
                 (case save w comparison comparison_path of
                    (Inl e, w') \<Rightarrow> (Inl e, w')
                  | (Inr _, w') \<Rightarrow>
                      (Inr comparison_path,
                       print (''Comparison image created: '' @ comparison_path) w')))))"

text \<open>Lines 5 to 63 on an installation.\<close>

definition create_comparison_image_on ::
  "installation \<Rightarrow> world \<Rightarrow> (exn + string option) \<times> world" where
  "create_comparison_image_on inst w =
     (case try_body_on inst w of
        (Inr path, w') \<Rightarrow> (Inr (Some path), w')
      | (Inl e, w') \<Rightarrow> (Inr None, print (''Error creating comparison: '' @ str e) w'))"


text \<open>An input path is decodable when it opens and its pixel data loads.\<close>

definition decodable :: "world \<Rightarrow> string \<Rightarrow> bool" where
  "decodable w path = (case Image_open w path of Inl _ \<Rightarrow> False | Inr im \<Rightarrow> img_decodes im)"

subsection \<open>A world to run the procedure in\<close>

text \<open>Screenshots of 400 by 300 and 400 by 500, no font installed, a writable disk.\<close>

definition valid_png :: image where
  "valid_png = \<lparr>img_width = 400, img_height = 300, img_decodes = True\<rparr>"

definition invalid_png :: image where
  "invalid_png = \<lparr>img_width = 400, img_height = 500, img_decodes = True\<rparr>"

definition demo_world :: world where
  "demo_world =
     \<lparr>files = [valid_path \<mapsto> Picture valid_png, invalid_path \<mapsto> Picture invalid_png],
      disk = (\<lambda>_. Written), stdout = []\<rparr>"




definition bitmap_install :: installation where
  "bitmap_install = \<lparr>pillow_installed = True, freetype_default = False\<rparr>"


text \<open>A world with no file at all.\<close>

definition empty_world :: world where
  "empty_world = \<lparr>files = Map.empty, disk = (\<lambda>_. Written), stdout = []\<rparr>"

subsection \<open>Reading the canvas\<close>

fun is_paste :: "draw_op \<Rightarrow> bool" where
  "is_paste (Paste _ _) = True"
| "is_paste (Text _ _ _ _) = False"

text \<open>The vertical position an operation was given.\<close>

definition op_y :: "draw_op \<Rightarrow> int" where
  "op_y d = snd (pos d)"

section \<open>Properties\<close>

subsection \<open>The composed canvas\<close>

lemma compose_canvas_decoded:
  assumes "img_decodes a" and "img_decodes b"
  shows "compose_canvas w a b =
    Inr \<lparr>c_mode = ''RGB'',
         c_size = (max (int (img_width a)) (int (img_width b)),
                   int (img_height a) + int (img_height b) + 120),
         c_color = ''white'',
         c_ops =
           [Text (20, 20) title_text ''black'' (fst (load_fonts w)),
            Text (20, 50) subtitle_text ''gray'' (snd (load_fonts w)),
            Text (20, 80) valid_caption ''green'' (snd (load_fonts w)),
            Text (20, 100) valid_description ''gray'' (snd (load_fonts w)),
            Paste a (0, 130),
            Text (20, int (img_height a) + 150) invalid_caption ''red'' (snd (load_fonts w)),
            Text (20, int (img_height a) + 170) invalid_description ''gray''
              (snd (load_fonts w)),
            Paste b (0, int (img_height a) + 200)]\<rparr>"
  using assms
  by (simp add: compose_canvas_def Let_def Image_new_def draw_text_def paste_def
      split: prod.split)

lemma compose_canvas_undecoded:
  assumes "\<not> img_decodes a \<or> \<not> img_decodes b"
  shows "\<exists>e. compose_canvas w a b = Inl e"
  using assms
  by (auto simp add: compose_canvas_def Let_def paste_def split: prod.split)

lemma demo_images_decode: "img_decodes valid_png \<and> img_decodes invalid_png"
  by (simp add: valid_png_def invalid_png_def)

subsection \<open>The outcome of the procedure\<close>


lemma try_body_undecodable:
  assumes "\<not> decodable w valid_path \<or> \<not> decodable w invalid_path"
  shows "\<exists>e. try_body w = (Inl e, w)"
proof (cases "Image_open w valid_path")
  case (Inl e)
  then show ?thesis by (simp add: try_body_def)
next
  case a: (Inr a)
  show ?thesis
  proof (cases "Image_open w invalid_path")
    case (Inl e)
    with a show ?thesis by (simp add: try_body_def)
  next
    case b: (Inr b)
    from assms a b have "\<not> img_decodes a \<or> \<not> img_decodes b"
      by (simp add: decodable_def)
    then obtain e where "compose_canvas w a b = Inl e"
      using compose_canvas_undecoded by blast
    with a b show ?thesis by (simp add: try_body_def)
  qed
qed

lemma try_body_written:
  assumes "Image_open w valid_path = Inr a" and "Image_open w invalid_path = Inr b"
    and "compose_canvas w a b = Inr c" and "disk w comparison_path = Written"
  shows "try_body w =
    (Inr comparison_path,
     print (''Comparison image created: '' @ comparison_path)
       (w\<lparr>files := (files w)(comparison_path \<mapsto> Composite c)\<rparr>))"
  using assms by (simp add: try_body_def save_def)

lemma create_comparison_image_written:
  assumes "Image_open w valid_path = Inr a" and "Image_open w invalid_path = Inr b"
    and "compose_canvas w a b = Inr c" and "disk w comparison_path = Written"
  shows "create_comparison_image w =
    (Inr (Some comparison_path),
     w\<lparr>files := (files w)(comparison_path \<mapsto> Composite c),
       stdout := stdout w @ [''Comparison image created: '' @ comparison_path]\<rparr>)"
  using try_body_written [OF assms]
  by (simp add: create_comparison_image_def print_def)

lemma open_valid_demo: "Image_open demo_world valid_path = Inr valid_png"
  by (simp add: Image_open_def demo_world_def)

lemma open_invalid_demo: "Image_open demo_world invalid_path = Inr invalid_png"
  by (simp add: Image_open_def demo_world_def)

lemma demo_disk: "disk demo_world comparison_path = Written"
  by (simp add: demo_world_def)


lemma load_fonts_demo: "load_fonts demo_world = (DefaultFont, DefaultFont)"
  by (simp add: load_fonts_def truetype_def demo_world_def load_default_def)

subsection \<open>The procedure on an installation\<close>

lemma plain_texts_latin1:
  "latin1 title_text" "latin1 subtitle_text" "latin1 valid_description"
  "latin1 invalid_description"
  by (simp_all add: latin1_def code_points_def)

lemma captions_not_latin1: "\<not> latin1 valid_caption" "\<not> latin1 invalid_caption"
  by (simp_all add: latin1_def code_points_def)

lemma renders_plain_texts:
  "renders inst f title_text" "renders inst f subtitle_text"
  "renders inst f valid_description" "renders inst f invalid_description"
  by (simp_all only: renders_def plain_texts_latin1 simp_thms)

lemma renders_captions:
  "renders inst f valid_caption = (f \<noteq> DefaultFont \<or> freetype_default inst)"
  "renders inst f invalid_caption = (f \<noteq> DefaultFont \<or> freetype_default inst)"
  by (simp_all only: renders_def captions_not_latin1 simp_thms)

lemma compose_canvas_on_rendered:
  assumes "renders inst (snd (load_fonts w)) valid_caption"
  shows "compose_canvas_on inst w a b = compose_canvas w a b"
proof -
  from assms have "renders inst (snd (load_fonts w)) invalid_caption"
    by (simp only: renders_captions)
  with assms show ?thesis
    unfolding compose_canvas_on_def compose_canvas_def
    by (simp only: Let_def draw_text_on_def and_then_def renders_plain_texts if_True
        sum.case split_beta fst_conv snd_conv split: sum.split)
qed

lemma compose_canvas_on_unrendered:
  assumes "\<not> renders inst (snd (load_fonts w)) valid_caption"
  shows "compose_canvas_on inst w a b =
    Inl (UnicodeEncodeError (latin1_error (code_points valid_caption)))"
  using assms
  unfolding compose_canvas_on_def
  by (simp only: Let_def draw_text_on_def and_then_def renders_plain_texts if_True if_False
      sum.case split_beta fst_conv snd_conv)

lemma try_body_on_rendered:
  assumes "renders inst (snd (load_fonts w)) valid_caption"
  shows "try_body_on inst w = try_body w"
  by (simp only: try_body_on_def try_body_def compose_canvas_on_rendered [OF assms])

lemma create_comparison_image_on_rendered:
  assumes "renders inst (snd (load_fonts w)) valid_caption"
  shows "create_comparison_image_on inst w = create_comparison_image w"
  by (simp only: create_comparison_image_on_def create_comparison_image_def
      try_body_on_rendered [OF assms])







lemma demo_decodable:
  "decodable demo_world valid_path \<and> decodable demo_world invalid_path"
  by (simp add: decodable_def open_valid_demo open_invalid_demo demo_images_decode)

lemma bitmap_default_cannot_draw_captions:
  "decodable demo_world valid_path \<and> decodable demo_world invalid_path \<and>
   disk demo_world comparison_path = Written \<and>
   load_fonts demo_world = (load_default, load_default) \<and>
   create_comparison_image_on bitmap_install demo_world =
     (Inr None,
      demo_world\<lparr>stdout :=
        [''Error creating comparison: '' @ [CHR 0x27] @ ''latin-1'' @ [CHR 0x27] @
         '' codec can'' @ [CHR 0x27] @ ''t encode character '' @ [CHR 0x27, CHR 0x5C] @
         ''u2705'' @ [CHR 0x27] @ '' in position 0: ordinal not in range(256)'']\<rparr>)"
proof -
  have f: "load_fonts demo_world = (DefaultFont, DefaultFont)" by (rule load_fonts_demo)
  have "\<not> renders bitmap_install DefaultFont valid_caption"
    by (simp only: renders_captions) (simp add: bitmap_install_def)
  with f have "\<not> renders bitmap_install (snd (load_fonts demo_world)) valid_caption"
    by simp
  from compose_canvas_on_unrendered [OF this]
  have "try_body_on bitmap_install demo_world =
      (Inl (UnicodeEncodeError (latin1_error (code_points valid_caption))), demo_world)"
    by (simp add: try_body_on_def open_valid_demo open_invalid_demo)
  moreover have "latin1_error (code_points valid_caption) =
      [CHR 0x27] @ ''latin-1'' @ [CHR 0x27] @
         '' codec can'' @ [CHR 0x27] @ ''t encode character '' @ [CHR 0x27, CHR 0x5C] @
         ''u2705'' @ [CHR 0x27] @ '' in position 0: ordinal not in range(256)''"
    by (simp add: latin1_error_def code_points_def escaped_def hex_digit_def Let_def)
  ultimately have "create_comparison_image_on bitmap_install demo_world =
     (Inr None,
      demo_world\<lparr>stdout := stdout demo_world @
        [''Error creating comparison: '' @ [CHR 0x27] @ ''latin-1'' @ [CHR 0x27] @
         '' codec can'' @ [CHR 0x27] @ ''t encode character '' @ [CHR 0x27, CHR 0x5C] @
         ''u2705'' @ [CHR 0x27] @ '' in position 0: ordinal not in range(256)'']\<rparr>)"
    by (simp add: create_comparison_image_on_def print_def)
  moreover have "stdout demo_world = []" by (simp add: demo_world_def)
  ultimately show ?thesis
    using demo_decodable demo_disk f by (simp add: load_default_def)
qed

lemma freetype_installation_agrees:
  assumes "freetype_default inst"
  shows "create_comparison_image_on inst w = create_comparison_image w"
proof -
  from assms have "renders inst (snd (load_fonts w)) valid_caption"
    by (simp only: renders_captions simp_thms)
  then show ?thesis by (rule create_comparison_image_on_rendered)
qed




section \<open>The claims\<close>

text \<open>
  C1. For two input images that decode, of sizes wA by hA and wB by hB, the canvas the
  procedure composes has width max(wA, wB) and height hA + hB + 120. For inputs of
  400 by 300 and 400 by 500 it is 400 by 920.
\<close>

theorem canvas_size:
  assumes "img_decodes a" and "img_decodes b"
  shows "\<exists>c. compose_canvas w a b = Inr c \<and>
    c_size c = (max (int (img_width a)) (int (img_width b)),
                int (img_height a) + int (img_height b) + 120)"
  by (simp add: compose_canvas_decoded [OF assms])

theorem canvas_size_witness:
  "img_decodes valid_png \<and> img_decodes invalid_png \<and>
   (\<exists>c. compose_canvas demo_world valid_png invalid_png = Inr c \<and> c_size c = (400, 920))"
  using canvas_size [of valid_png invalid_png demo_world]
  by (simp add: valid_png_def invalid_png_def)

text \<open>
  C2. The claim is that the 120 units of overhead hold all the text, so that image B,
  pasted at its position, ends inside the canvas. The procedure run on screenshots of
  400 by 300 and 400 by 500 pastes image B at row 500 of a canvas of 920 rows: its 500
  rows would end at row 1000, and the library copies 420 of them.
\<close>

theorem second_paste_leaves_canvas:
  "\<exists>c. compose_canvas demo_world valid_png invalid_png = Inr c \<and>
     last (c_ops c) = Paste invalid_png (0, 500) \<and>
     snd (c_size c) = 920 \<and>
     500 + int (img_height invalid_png) = 1000 \<and>
     clip c invalid_png (0, 500) = (0, 0, 400, 420)"
  by (simp add: compose_canvas_decoded demo_images_decode clip_def Let_def)
    (simp add: valid_png_def invalid_png_def)

text \<open>
  C3. For two input images that decode, image B is the last thing put on the canvas, at
  row hA + 200; its box ends exactly 80 rows below the last row of the canvas, and the
  rows of image B that reach the canvas are the rows before row hB - 80 (none when
  hB is at most 80, or when image B has no column): the bottom 80 rows are not in the
  composite.
\<close>

theorem second_image_loses_80_rows:
  assumes "img_decodes a" and "img_decodes b"
  shows "\<exists>c. compose_canvas w a b = Inr c \<and>
    last (c_ops c) = Paste b (0, int (img_height a) + 200) \<and>
    snd (c_size c) = int (img_height a) + int (img_height b) + 120 \<and>
    (int (img_height a) + 200) + int (img_height b) = snd (c_size c) + 80 \<and>
    set (copied_rows c b (0, int (img_height a) + 200)) =
      {r. 0 < img_width b \<and> 0 \<le> r \<and> r < int (img_height b) - 80}"
  by (auto simp add: compose_canvas_decoded [OF assms] copied_rows_def clip_def Let_def)

theorem second_image_loses_80_rows_witness:
  "img_decodes valid_png \<and> img_decodes invalid_png \<and>
   (\<exists>c. compose_canvas demo_world valid_png invalid_png = Inr c \<and>
     last (c_ops c) = Paste invalid_png (0, 500) \<and>
     snd (c_size c) + 80 = 1000 \<and>
     set (copied_rows c invalid_png (0, 500)) = {r. 0 \<le> r \<and> r < 420})"
  using second_image_loses_80_rows [of valid_png invalid_png demo_world]
  by (simp add: valid_png_def invalid_png_def)

text \<open>
  C4. When one of the two inputs does not open or does not decode, the procedure does
  not raise: it returns \<^verbatim>\<open>None\<close>, prints the line "Error creating comparison: "
  followed by the message of the exception, and leaves the file system as it was, so no
  output file is written.
\<close>

theorem decode_failure_gives_no_result:
  assumes "\<not> decodable w valid_path \<or> \<not> decodable w invalid_path"
  shows "\<exists>e. create_comparison_image w =
      (Inr None, w\<lparr>stdout := stdout w @ [''Error creating comparison: '' @ str e]\<rparr>)"
proof -
  from try_body_undecodable [OF assms] obtain e where "try_body w = (Inl e, w)" ..
  then have "create_comparison_image w =
      (Inr None, w\<lparr>stdout := stdout w @ [''Error creating comparison: '' @ str e]\<rparr>)"
    by (simp add: create_comparison_image_def print_def)
  then show ?thesis ..
qed

theorem decode_failure_gives_no_result_witness:
  "\<not> decodable empty_world valid_path \<and>
   (\<exists>e. create_comparison_image empty_world =
      (Inr None, empty_world\<lparr>stdout := [''Error creating comparison: '' @ str e]\<rparr>))"
proof -
  have h: "\<not> decodable empty_world valid_path"
    by (simp add: decodable_def Image_open_def empty_world_def)
  then have "\<not> decodable empty_world valid_path \<or> \<not> decodable empty_world invalid_path" ..
  from decode_failure_gives_no_result [OF this] h show ?thesis
    by (simp add: empty_world_def)
qed



text \<open>
  C6. For two input images that decode, the canvas gets two pastes, image A and then
  image B, both at column 0, and image B starts at or below the row where image A ends.
  The rows at which the eight operations are placed (title, subtitle, caption and
  description of A, image A, caption and description of B, image B) increase strictly.
\<close>

theorem sections_do_not_overlap:
  assumes "img_decodes a" and "img_decodes b"
  shows "\<exists>c ya yb. compose_canvas w a b = Inr c \<and>
    filter is_paste (c_ops c) = [Paste a (0, ya), Paste b (0, yb)] \<and>
    ya + int (img_height a) \<le> yb \<and>
    sorted_wrt (<) (map op_y (c_ops c))"
  by (simp add: compose_canvas_decoded [OF assms] op_y_def)

theorem sections_do_not_overlap_witness:
  "img_decodes valid_png \<and> img_decodes invalid_png \<and>
   (\<exists>c ya yb. compose_canvas demo_world valid_png invalid_png = Inr c \<and>
     filter is_paste (c_ops c) = [Paste valid_png (0, ya), Paste invalid_png (0, yb)] \<and>
     ya + 300 \<le> yb \<and>
     map op_y (c_ops c) = [20, 50, 80, 100, 130, 450, 470, 500])"
  using sections_do_not_overlap [of valid_png invalid_png demo_world]
  by (simp add: compose_canvas_decoded demo_images_decode op_y_def)
    (simp add: valid_png_def invalid_png_def)

text \<open>
  C7. For two input images that decode, what follows the two header lines on the canvas
  is, with the running offset at 80: the caption of A at the offset (green, small font),
  its description 20 below (gray), image A at column 0 and row offset + 50; then, with
  the offset advanced to offset + 50 + hA + 20: the caption of B at the new offset (red),
  its description 20 below (gray), image B at column 0 and row new offset + 50.
\<close>

theorem placement_steps:
  assumes "img_decodes a" and "img_decodes b"
  shows "\<exists>c. compose_canvas w a b = Inr c \<and>
    drop 2 (c_ops c) =
      (let font_small = snd (load_fonts w);
           offset = 80;
           offset' = offset + 50 + int (img_height a) + 20
       in [Text (20, offset) valid_caption ''green'' font_small,
           Text (20, offset + 20) valid_description ''gray'' font_small,
           Paste a (0, offset + 50),
           Text (20, offset') invalid_caption ''red'' font_small,
           Text (20, offset' + 20) invalid_description ''gray'' font_small,
           Paste b (0, offset' + 50)])"
  by (simp add: compose_canvas_decoded [OF assms] Let_def)

theorem placement_steps_witness:
  "img_decodes valid_png \<and> img_decodes invalid_png \<and>
   (\<exists>c. compose_canvas demo_world valid_png invalid_png = Inr c \<and>
     drop 2 (c_ops c) =
       [Text (20, 80) valid_caption ''green'' DefaultFont,
        Text (20, 100) valid_description ''gray'' DefaultFont,
        Paste valid_png (0, 130),
        Text (20, 450) invalid_caption ''red'' DefaultFont,
        Text (20, 470) invalid_description ''gray'' DefaultFont,
        Paste invalid_png (0, 500)])"
proof -
  from placement_steps [of valid_png invalid_png demo_world] demo_images_decode
    load_fonts_demo
  show ?thesis
    by (simp add: Let_def) (simp add: valid_png_def)
qed

text \<open>
  C8. When both inputs open and decode and the output path can be written, the
  procedure returns the output path, the file at that path is the canvas composed from
  the two inputs, and the one line it prints is "Comparison image created: " followed
  by the output path.
\<close>

theorem success_returns_path:
  assumes "Image_open w valid_path = Inr a" and "Image_open w invalid_path = Inr b"
    and "img_decodes a" and "img_decodes b"
    and "disk w comparison_path = Written"
  shows "\<exists>c. compose_canvas w a b = Inr c \<and>
    create_comparison_image w =
      (Inr (Some ''/tmp/playwright-logs/error-validation-comparison.png''),
       w\<lparr>files := (files w)(''/tmp/playwright-logs/error-validation-comparison.png'' \<mapsto>
            Composite c),
         stdout := stdout w @
           [''Comparison image created: /tmp/playwright-logs/error-validation-comparison.png'']\<rparr>)"
proof -
  from compose_canvas_decoded [OF assms(3) assms(4)]
  obtain c where c: "compose_canvas w a b = Inr c"
    by blast
  from create_comparison_image_written [OF assms(1) assms(2) c assms(5)] c show ?thesis
    by auto
qed

theorem success_returns_path_witness:
  "Image_open demo_world valid_path = Inr valid_png \<and>
   Image_open demo_world invalid_path = Inr invalid_png \<and>
   img_decodes valid_png \<and> img_decodes invalid_png \<and>
   disk demo_world comparison_path = Written \<and>
   fst (create_comparison_image demo_world) = Inr (Some comparison_path) \<and>
   stdout (snd (create_comparison_image demo_world)) =
     [''Comparison image created: /tmp/playwright-logs/error-validation-comparison.png''] \<and>
   files (snd (create_comparison_image demo_world)) comparison_path \<noteq> None"
proof -
  note h = open_valid_demo open_invalid_demo demo_images_decode [THEN conjunct1]
    demo_images_decode [THEN conjunct2] demo_disk
  from success_returns_path [OF h]
  have "fst (create_comparison_image demo_world) = Inr (Some comparison_path) \<and>
    stdout (snd (create_comparison_image demo_world)) =
      stdout demo_world @
      [''Comparison image created: /tmp/playwright-logs/error-validation-comparison.png''] \<and>
    files (snd (create_comparison_image demo_world)) comparison_path \<noteq> None"
    by auto
  with h show ?thesis
    by (simp add: demo_world_def)
qed




text \<open>
  C10. For two input images that decode, the first two operations on the canvas are the
  title at (20, 20), in black, in the large font, and the subtitle at (20, 50), in gray,
  in the small font.
\<close>

theorem header_lines:
  assumes "img_decodes a" and "img_decodes b"
  shows "\<exists>c. compose_canvas w a b = Inr c \<and>
    take 2 (c_ops c) =
      (case load_fonts w of (font_large, font_small) \<Rightarrow>
         [Text (20, 20) title_text ''black'' font_large,
          Text (20, 50) subtitle_text ''gray'' font_small])"
  by (simp add: compose_canvas_decoded [OF assms] split: prod.split)

theorem header_lines_witness:
  "img_decodes valid_png \<and> img_decodes invalid_png \<and>
   (\<exists>c. compose_canvas demo_world valid_png invalid_png = Inr c \<and>
     take 2 (c_ops c) =
       [Text (20, 20) title_text ''black'' DefaultFont,
        Text (20, 50) subtitle_text ''gray'' DefaultFont])"
  using header_lines [of valid_png invalid_png demo_world] demo_images_decode load_fonts_demo
  by simp

end
